theory Spec2Isabelle
  imports Complex_Main
begin

section \<open>Handles, descriptors and the objects of clEvaluator.h\<close>

text \<open>
  OpenCL handles (\<open>cl_mem\<close>, \<open>cl_context\<close>, \<open>cl_command_queue\<close>, \<open>cl_program\<close>,
  \<open>cl_kernel\<close>) are opaque pointers; they are natural numbers here and \<open>0\<close> is the null
  handle. The C++ \<open>int\<close> arguments (\<open>start\<close>, \<open>end\<close>, \<open>numPatchCoords\<close>, the stencil
  count) are only passed along by the header, never computed with, and are \<open>int\<close>.
\<close>

type_synonym cl_mem = nat
type_synonym cl_context = nat
type_synonym cl_command_queue = nat
type_synonym cl_program = nat
type_synonym cl_kernel = nat

text \<open>
  Modelled from the spec: \<open>VertexBufferDescriptor\<close> is declared in osd/vertexDescriptor.h,
  which is not among the sources. The specification gives it as the triple of a
  non-negative offset, a component count (length) and a stride; a default-constructed
  descriptor is the empty one.
\<close>

record VertexBufferDescriptor =
  offset :: nat
  length_d :: nat
  stride :: nat

definition VertexBufferDescriptor0 :: VertexBufferDescriptor where
  "VertexBufferDescriptor0 = \<lparr>offset = 0, length_d = 0, stride = 0\<rparr>"

text \<open>
  \<open>class CLStencilTable\<close>: four device buffers and a count behind five \<open>const\<close> getters.
  The record's fields are the getters.
\<close>

record CLStencilTable =
  GetSizesBuffer :: cl_mem
  GetOffsetsBuffer :: cl_mem
  GetIndicesBuffer :: cl_mem
  GetWeightsBuffer :: cl_mem
  GetNumStencils :: int

text \<open>
  Modelled from the spec: the \<open>PATCH_TABLE\<close> template parameter (CLPatchTable, declared in
  osd/clPatchTable.h, not among the sources) is used through three getters of device
  buffer handles only.
\<close>

record PatchTable =
  GetPatchArrayBuffer :: cl_mem
  GetPatchIndexBuffer :: cl_mem
  GetPatchParamBuffer :: cl_mem

text \<open>The \<open>DEVICE_CONTEXT\<close> template parameter: two getters.\<close>

record DeviceContext =
  GetContext :: cl_context
  GetCommandQueue :: cl_command_queue

text \<open>The private members of \<open>class CLEvaluator\<close>.\<close>

record CLEvaluator =
  clContext :: cl_context
  clCommandQueue :: cl_command_queue
  program :: cl_program
  stencilKernel :: cl_kernel
  patchKernel :: cl_kernel

text \<open>
  A buffer object (\<open>SRC_BUFFER\<close>, \<open>DST_BUFFER\<close>, \<open>PATCHCOORD_BUFFER\<close>) is used through
  \<open>BindCLBuffer(queue)\<close> only. Binding may act on the world \<open>'w\<close> (an interop buffer
  acquires its storage), so it is a state transformer that returns the handle.
\<close>

type_synonym 'w buffer = "cl_command_queue \<Rightarrow> 'w \<Rightarrow> cl_mem \<times> 'w"

definition BindCLBuffer :: "'w buffer \<Rightarrow> cl_command_queue \<Rightarrow> 'w \<Rightarrow> cl_mem \<times> 'w" where
  "BindCLBuffer b q w = b q w"

text \<open>
  The header declares five members whose bodies are in clEvaluator.cpp, which is not
  among the sources: the constructor, the destructor, \<open>Compile\<close> and the two raw
  dispatches. The inline code of the header is modelled relative to an arbitrary
  implementation of them, acting on an arbitrary world \<open>'w\<close>. \<open>Compile\<close> is not
  \<open>const\<close>: it returns the evaluator it leaves behind together with its result. The two
  dispatches are \<open>const\<close>.
\<close>

record 'w runtime =
  construct :: "cl_context \<Rightarrow> cl_command_queue \<Rightarrow> 'w \<Rightarrow> CLEvaluator \<times> 'w"
  destruct :: "CLEvaluator \<Rightarrow> 'w \<Rightarrow> 'w"
  Compile :: "CLEvaluator \<Rightarrow> VertexBufferDescriptor \<Rightarrow> VertexBufferDescriptor
              \<Rightarrow> 'w \<Rightarrow> (bool \<times> CLEvaluator) \<times> 'w"
  EvalStencils :: "CLEvaluator \<Rightarrow> cl_mem \<Rightarrow> VertexBufferDescriptor
              \<Rightarrow> cl_mem \<Rightarrow> VertexBufferDescriptor
              \<Rightarrow> cl_mem \<Rightarrow> cl_mem \<Rightarrow> cl_mem \<Rightarrow> cl_mem \<Rightarrow> int \<Rightarrow> int
              \<Rightarrow> 'w \<Rightarrow> bool \<times> 'w"
  EvalPatches :: "CLEvaluator \<Rightarrow> cl_mem \<Rightarrow> VertexBufferDescriptor
              \<Rightarrow> cl_mem \<Rightarrow> VertexBufferDescriptor
              \<Rightarrow> cl_mem \<Rightarrow> VertexBufferDescriptor
              \<Rightarrow> cl_mem \<Rightarrow> VertexBufferDescriptor
              \<Rightarrow> int \<Rightarrow> cl_mem \<Rightarrow> cl_mem \<Rightarrow> cl_mem \<Rightarrow> cl_mem
              \<Rightarrow> 'w \<Rightarrow> bool \<times> 'w"

section \<open>The inline functions of class CLEvaluator\<close>

text \<open>
  \<open>static CLEvaluator *Create(srcDesc, dstDesc, clContext, clCommandQueue)\<close>: \<open>None\<close> is
  the \<open>NULL\<close> result.
\<close>

definition Create ::
  "'w runtime \<Rightarrow> VertexBufferDescriptor \<Rightarrow> VertexBufferDescriptor
   \<Rightarrow> cl_context \<Rightarrow> cl_command_queue \<Rightarrow> 'w \<Rightarrow> CLEvaluator option \<times> 'w" where
  "Create rt srcDesc dstDesc ctx queue w =
     (case construct rt ctx queue w of (kern, w1) \<Rightarrow>
        (case Compile rt kern srcDesc dstDesc w1 of ((ok, kern'), w2) \<Rightarrow>
           if ok then (Some kern', w2)
           else (None, destruct rt kern' w2)))"

text \<open>The generic creator template, \<open>Create(srcDesc, dstDesc, deviceContext)\<close>.\<close>

definition Create_generic ::
  "'w runtime \<Rightarrow> VertexBufferDescriptor \<Rightarrow> VertexBufferDescriptor
   \<Rightarrow> DeviceContext \<Rightarrow> 'w \<Rightarrow> CLEvaluator option \<times> 'w" where
  "Create_generic rt srcDesc dstDesc deviceContext =
     Create rt srcDesc dstDesc (GetContext deviceContext) (GetCommandQueue deviceContext)"

text \<open>
  The member template \<open>EvalStencils(srcBuffer, srcDesc, dstBuffer, dstDesc, stencilTable)\<close>.
  C++ leaves the order in which the arguments of a call are evaluated open; the two
  binds are run left to right here.
\<close>

definition EvalStencils_member ::
  "'w runtime \<Rightarrow> CLEvaluator \<Rightarrow> 'w buffer \<Rightarrow> VertexBufferDescriptor
   \<Rightarrow> 'w buffer \<Rightarrow> VertexBufferDescriptor \<Rightarrow> CLStencilTable \<Rightarrow> 'w \<Rightarrow> bool \<times> 'w" where
  "EvalStencils_member rt this srcBuffer srcDesc dstBuffer dstDesc stencilTable w =
     (case BindCLBuffer srcBuffer (clCommandQueue this) w of (src, w1) \<Rightarrow>
        (case BindCLBuffer dstBuffer (clCommandQueue this) w1 of (dst, w2) \<Rightarrow>
           EvalStencils rt this src srcDesc dst dstDesc
             (GetSizesBuffer stencilTable) (GetOffsetsBuffer stencilTable)
             (GetIndicesBuffer stencilTable) (GetWeightsBuffer stencilTable)
             0 (GetNumStencils stencilTable) w2))"

text \<open>The static template \<open>EvalStencils(..., instance, deviceContext)\<close>.\<close>

definition EvalStencils_static ::
  "'w runtime \<Rightarrow> 'w buffer \<Rightarrow> VertexBufferDescriptor
   \<Rightarrow> 'w buffer \<Rightarrow> VertexBufferDescriptor \<Rightarrow> CLStencilTable
   \<Rightarrow> CLEvaluator option \<Rightarrow> DeviceContext \<Rightarrow> 'w \<Rightarrow> bool \<times> 'w" where
  "EvalStencils_static rt srcBuffer srcDesc dstBuffer dstDesc stencilTable instance
       deviceContext w =
     (case instance of
        Some inst \<Rightarrow>
          EvalStencils_member rt inst srcBuffer srcDesc dstBuffer dstDesc stencilTable w
      | None \<Rightarrow>
          (case Create_generic rt srcDesc dstDesc deviceContext w of
             (Some inst, w1) \<Rightarrow>
               (case EvalStencils_member rt inst srcBuffer srcDesc dstBuffer dstDesc
                       stencilTable w1 of
                  (r, w2) \<Rightarrow> (r, destruct rt inst w2))
           | (None, w1) \<Rightarrow> (False, w1)))"

text \<open>
  The member template \<open>EvalPatches\<close> without derivatives: null handles and
  default-constructed descriptors stand for the derivative outputs.
\<close>

definition EvalPatches_member ::
  "'w runtime \<Rightarrow> CLEvaluator \<Rightarrow> 'w buffer \<Rightarrow> VertexBufferDescriptor
   \<Rightarrow> 'w buffer \<Rightarrow> VertexBufferDescriptor \<Rightarrow> int \<Rightarrow> 'w buffer \<Rightarrow> PatchTable
   \<Rightarrow> 'w \<Rightarrow> bool \<times> 'w" where
  "EvalPatches_member rt this srcBuffer srcDesc dstBuffer dstDesc numPatchCoords
       patchCoords patchTable w =
     (case BindCLBuffer srcBuffer (clCommandQueue this) w of (src, w1) \<Rightarrow>
        (case BindCLBuffer dstBuffer (clCommandQueue this) w1 of (dst, w2) \<Rightarrow>
           (case BindCLBuffer patchCoords (clCommandQueue this) w2 of (pc, w3) \<Rightarrow>
              EvalPatches rt this src srcDesc dst dstDesc
                0 VertexBufferDescriptor0 0 VertexBufferDescriptor0
                numPatchCoords pc
                (GetPatchArrayBuffer patchTable) (GetPatchIndexBuffer patchTable)
                (GetPatchParamBuffer patchTable) w3)))"

text \<open>The member template \<open>EvalPatches\<close> with derivatives.\<close>

definition EvalPatches_member_deriv ::
  "'w runtime \<Rightarrow> CLEvaluator \<Rightarrow> 'w buffer \<Rightarrow> VertexBufferDescriptor
   \<Rightarrow> 'w buffer \<Rightarrow> VertexBufferDescriptor
   \<Rightarrow> 'w buffer \<Rightarrow> VertexBufferDescriptor
   \<Rightarrow> 'w buffer \<Rightarrow> VertexBufferDescriptor
   \<Rightarrow> int \<Rightarrow> 'w buffer \<Rightarrow> PatchTable \<Rightarrow> 'w \<Rightarrow> bool \<times> 'w" where
  "EvalPatches_member_deriv rt this srcBuffer srcDesc dstBuffer dstDesc
       duBuffer duDesc dvBuffer dvDesc numPatchCoords patchCoords patchTable w =
     (case BindCLBuffer srcBuffer (clCommandQueue this) w of (src, w1) \<Rightarrow>
        (case BindCLBuffer dstBuffer (clCommandQueue this) w1 of (dst, w2) \<Rightarrow>
           (case BindCLBuffer duBuffer (clCommandQueue this) w2 of (du, w3) \<Rightarrow>
              (case BindCLBuffer dvBuffer (clCommandQueue this) w3 of (dv, w4) \<Rightarrow>
                 (case BindCLBuffer patchCoords (clCommandQueue this) w4 of (pc, w5) \<Rightarrow>
                    EvalPatches rt this src srcDesc dst dstDesc du duDesc dv dvDesc
                      numPatchCoords pc
                      (GetPatchArrayBuffer patchTable) (GetPatchIndexBuffer patchTable)
                      (GetPatchParamBuffer patchTable) w5)))))"

text \<open>The static template \<open>EvalPatches(..., instance, deviceContext)\<close> without derivatives.\<close>

definition EvalPatches_static ::
  "'w runtime \<Rightarrow> 'w buffer \<Rightarrow> VertexBufferDescriptor
   \<Rightarrow> 'w buffer \<Rightarrow> VertexBufferDescriptor \<Rightarrow> int \<Rightarrow> 'w buffer \<Rightarrow> PatchTable
   \<Rightarrow> CLEvaluator option \<Rightarrow> DeviceContext \<Rightarrow> 'w \<Rightarrow> bool \<times> 'w" where
  "EvalPatches_static rt srcBuffer srcDesc dstBuffer dstDesc numPatchCoords patchCoords
       patchTable instance deviceContext w =
     (case instance of
        Some inst \<Rightarrow>
          EvalPatches_member rt inst srcBuffer srcDesc dstBuffer dstDesc numPatchCoords
            patchCoords patchTable w
      | None \<Rightarrow>
          (case Create_generic rt srcDesc dstDesc deviceContext w of
             (Some inst, w1) \<Rightarrow>
               (case EvalPatches_member rt inst srcBuffer srcDesc dstBuffer dstDesc
                       numPatchCoords patchCoords patchTable w1 of
                  (r, w2) \<Rightarrow> (r, destruct rt inst w2))
           | (None, w1) \<Rightarrow> (False, w1)))"

text \<open>The static template \<open>EvalPatches(..., instance, deviceContext)\<close> with derivatives.\<close>

definition EvalPatches_static_deriv ::
  "'w runtime \<Rightarrow> 'w buffer \<Rightarrow> VertexBufferDescriptor
   \<Rightarrow> 'w buffer \<Rightarrow> VertexBufferDescriptor
   \<Rightarrow> 'w buffer \<Rightarrow> VertexBufferDescriptor
   \<Rightarrow> 'w buffer \<Rightarrow> VertexBufferDescriptor
   \<Rightarrow> int \<Rightarrow> 'w buffer \<Rightarrow> PatchTable
   \<Rightarrow> CLEvaluator option \<Rightarrow> DeviceContext \<Rightarrow> 'w \<Rightarrow> bool \<times> 'w" where
  "EvalPatches_static_deriv rt srcBuffer srcDesc dstBuffer dstDesc duBuffer duDesc
       dvBuffer dvDesc numPatchCoords patchCoords patchTable instance deviceContext w =
     (case instance of
        Some inst \<Rightarrow>
          EvalPatches_member_deriv rt inst srcBuffer srcDesc dstBuffer dstDesc
            duBuffer duDesc dvBuffer dvDesc numPatchCoords patchCoords patchTable w
      | None \<Rightarrow>
          (case Create_generic rt srcDesc dstDesc deviceContext w of
             (Some inst, w1) \<Rightarrow>
               (case EvalPatches_member_deriv rt inst srcBuffer srcDesc dstBuffer dstDesc
                       duBuffer duDesc dvBuffer dvDesc numPatchCoords patchCoords
                       patchTable w1 of
                  (r, w2) \<Rightarrow> (r, destruct rt inst w2))
           | (None, w1) \<Rightarrow> (False, w1)))"

section \<open>The members defined outside the header\<close>

text \<open>
  The device memory the dispatches act on. A \<open>cl_mem\<close> handle names a buffer; buffers
  of components (of type \<open>'a\<close>, \<open>float\<close> in the source) and buffers of \<open>int\<close> are kept
  apart. Buffers are lists: an access beyond the end of a buffer is an accelerator
  runtime error that this code does not detect, the theorems below assume the accesses
  they speak of to be in range.
\<close>

record 'a device =
  fbuf :: "cl_mem \<Rightarrow> 'a list"
  ibuf :: "cl_mem \<Rightarrow> int list"

text \<open>
  The platform's compiler: for a context and a descriptor pair it yields the program and
  its two kernel entry points, or nothing when the build fails.
\<close>

type_synonym builder =
  "cl_context \<Rightarrow> VertexBufferDescriptor \<Rightarrow> VertexBufferDescriptor
   \<Rightarrow> (cl_program \<times> cl_kernel \<times> cl_kernel) option"

text \<open>
  The limit evaluation done by the patch kernel is outside this code: for the memory
  before the dispatch, the source buffer and its descriptor, the patch coordinate buffer,
  the three patch table buffers and the number of a patch coordinate, it yields the
  components of the position and of the two tangent vectors.
\<close>

type_synonym 'a patch_eval =
  "'a device \<Rightarrow> cl_mem \<Rightarrow> VertexBufferDescriptor \<Rightarrow> cl_mem \<Rightarrow> cl_mem \<Rightarrow> cl_mem \<Rightarrow> cl_mem
   \<Rightarrow> nat \<Rightarrow> (nat \<Rightarrow> 'a) \<times> (nat \<Rightarrow> 'a) \<times> (nat \<Rightarrow> 'a)"

text \<open>
  Modelled from the spec: the constructor \<open>CLEvaluator(context, queue)\<close>, defined in
  clEvaluator.cpp. The evaluator owns the context and the queue; no kernel is compiled.
\<close>

definition spec_construct ::
  "cl_context \<Rightarrow> cl_command_queue \<Rightarrow> 'w \<Rightarrow> CLEvaluator \<times> 'w" where
  "spec_construct ctx queue w =
     (\<lparr>clContext = ctx, clCommandQueue = queue, program = 0, stencilKernel = 0,
       patchKernel = 0\<rparr>, w)"

text \<open>
  Modelled from the spec: the destructor, defined in clEvaluator.cpp. It releases the
  handles; handles are not accounted for in the device memory.
\<close>

definition spec_destruct :: "CLEvaluator \<Rightarrow> 'w \<Rightarrow> 'w" where
  "spec_destruct this w = w"

text \<open>
  Modelled from the spec: \<open>Compile\<close>, defined in clEvaluator.cpp. It compiles a program
  for the owned context and the descriptor pair and extracts the two kernel entry
  points; it returns false and leaves the prior kernels untouched on failure; on success
  the new kernels replace the previous ones.
\<close>

definition spec_Compile ::
  "builder \<Rightarrow> CLEvaluator \<Rightarrow> VertexBufferDescriptor \<Rightarrow> VertexBufferDescriptor
   \<Rightarrow> 'w \<Rightarrow> (bool \<times> CLEvaluator) \<times> 'w" where
  "spec_Compile build this srcDesc dstDesc w =
     (case build (clContext this) srcDesc dstDesc of
        None \<Rightarrow> ((False, this), w)
      | Some (prog, sk, pk) \<Rightarrow>
          if prog = 0 \<or> sk = 0 \<or> pk = 0 then ((False, this), w)
          else ((True, this\<lparr>program := prog, stencilKernel := sk, patchKernel := pk\<rparr>), w))"

text \<open>The place of component \<open>c\<close> of vertex \<open>i\<close> in a buffer laid out by a descriptor.\<close>

definition slot :: "VertexBufferDescriptor \<Rightarrow> nat \<Rightarrow> nat \<Rightarrow> nat" where
  "slot desc i c = offset desc + i * stride desc + c"

text \<open>Writing the \<open>length\<close> components of vertex \<open>i\<close>, and of a list of vertices in turn.\<close>

definition writeVertex ::
  "'a list \<Rightarrow> VertexBufferDescriptor \<Rightarrow> nat \<Rightarrow> (nat \<Rightarrow> 'a) \<Rightarrow> 'a list" where
  "writeVertex buf desc i val =
     foldl (\<lambda>d c. d[slot desc i c := val c]) buf [0..<length_d desc]"

definition writeVertices ::
  "'a list \<Rightarrow> VertexBufferDescriptor \<Rightarrow> nat list \<Rightarrow> (nat \<Rightarrow> nat \<Rightarrow> 'a) \<Rightarrow> 'a list" where
  "writeVertices buf desc vs val = foldl (\<lambda>d i. writeVertex d desc i (val i)) buf vs"

text \<open>
  Modelled from the spec: the stencil kernel. Component \<open>c\<close> of output vertex \<open>i\<close> is
  accumulated from zero over the contributions \<open>k = 0, ..., sizes[i] - 1\<close>, each the
  product of \<open>weights[offsets[i] + k]\<close> and the component of source vertex
  \<open>indices[offsets[i] + k]\<close>, read through the source descriptor.
\<close>

definition stencilComponent ::
  "'a::{zero,plus,times} list \<Rightarrow> VertexBufferDescriptor
   \<Rightarrow> int list \<Rightarrow> int list \<Rightarrow> int list \<Rightarrow> 'a list \<Rightarrow> nat \<Rightarrow> nat \<Rightarrow> 'a" where
  "stencilComponent src srcDesc sizes offsets indices weights i c =
     foldl (\<lambda>acc k. acc + weights ! (nat (offsets ! i) + k)
                         * src ! slot srcDesc (nat (indices ! (nat (offsets ! i) + k))) c)
       0 [0..<nat (sizes ! i)]"

text \<open>
  Modelled from the spec: the raw \<open>EvalStencils\<close>, defined in clEvaluator.cpp. It returns
  false without side effects if no kernel is compiled; otherwise the output vertices
  \<open>start, ..., end - 1\<close> are computed from the source as it is before the dispatch and
  written through the destination descriptor. The descriptors are those of the call, as
  in the formula of the specification; a negative \<open>start\<close> is outside its precondition.
  The dispatch is asynchronous in the source; its effect is taken at once here.
\<close>

definition spec_EvalStencils ::
  "CLEvaluator \<Rightarrow> cl_mem \<Rightarrow> VertexBufferDescriptor \<Rightarrow> cl_mem \<Rightarrow> VertexBufferDescriptor
   \<Rightarrow> cl_mem \<Rightarrow> cl_mem \<Rightarrow> cl_mem \<Rightarrow> cl_mem \<Rightarrow> int \<Rightarrow> int
   \<Rightarrow> ('a::{zero,plus,times}) device \<Rightarrow> bool \<times> 'a device" where
  "spec_EvalStencils this src srcDesc dst dstDesc sizes offsets indices weights start end w =
     (if stencilKernel this = 0 then (False, w)
      else (True,
        w\<lparr>fbuf := (fbuf w)(dst :=
            writeVertices (fbuf w dst) dstDesc [nat start..<nat end]
              (stencilComponent (fbuf w src) srcDesc (ibuf w sizes) (ibuf w offsets)
                 (ibuf w indices) (fbuf w weights)))\<rparr>))"

text \<open>
  Modelled from the spec: the raw \<open>EvalPatches\<close>, defined in clEvaluator.cpp. It returns
  false without side effects if no kernel is compiled; otherwise, for each of the
  \<open>numPatchCoords\<close> entries, the position is written through the destination descriptor
  and, where a derivative buffer is given, the tangent vector through its descriptor.
\<close>

definition spec_EvalPatches ::
  "'a patch_eval \<Rightarrow> CLEvaluator \<Rightarrow> cl_mem \<Rightarrow> VertexBufferDescriptor
   \<Rightarrow> cl_mem \<Rightarrow> VertexBufferDescriptor
   \<Rightarrow> cl_mem \<Rightarrow> VertexBufferDescriptor
   \<Rightarrow> cl_mem \<Rightarrow> VertexBufferDescriptor
   \<Rightarrow> int \<Rightarrow> cl_mem \<Rightarrow> cl_mem \<Rightarrow> cl_mem \<Rightarrow> cl_mem
   \<Rightarrow> 'a device \<Rightarrow> bool \<times> 'a device" where
  "spec_EvalPatches limit this src srcDesc dst dstDesc du duDesc dv dvDesc numPatchCoords
       patchCoordsBuffer patchArrayBuffer patchIndexBuffer patchParamsBuffer w =
     (if patchKernel this = 0 then (False, w)
      else
        (let ev = limit w src srcDesc patchCoordsBuffer patchArrayBuffer patchIndexBuffer
                    patchParamsBuffer;
             coords = [0..<nat numPatchCoords];
             m1 = (fbuf w)(dst :=
                    writeVertices (fbuf w dst) dstDesc coords (\<lambda>n. fst (ev n)));
             m2 = (if du = 0 then m1
                   else m1(du :=
                    writeVertices (m1 du) duDesc coords (\<lambda>n. fst (snd (ev n)))));
             m3 = (if dv = 0 then m2
                   else m2(dv :=
                    writeVertices (m2 dv) dvDesc coords (\<lambda>n. snd (snd (ev n)))))
         in (True, w\<lparr>fbuf := m3\<rparr>)))"

text \<open>The five members together, for a platform compiler and a limit evaluation.\<close>

definition spec_runtime ::
  "builder \<Rightarrow> ('a::{zero,plus,times}) patch_eval \<Rightarrow> 'a device runtime" where
  "spec_runtime build limit =
     \<lparr>construct = spec_construct, destruct = spec_destruct,
      Compile = spec_Compile build, EvalStencils = spec_EvalStencils,
      EvalPatches = spec_EvalPatches limit\<rparr>"

text \<open>
  A buffer object that holds a device buffer and hands out its handle on binding.
\<close>

definition plainBuffer :: "cl_mem \<Rightarrow> 'w buffer" where
  "plainBuffer h = (\<lambda>queue w. (h, w))"

section \<open>Observing the calls\<close>

text \<open>
  To speak of which calls the inline functions make, an implementation of the five
  members is wrapped so that every call is appended to a list kept beside the world; a
  buffer object is wrapped likewise.
\<close>

datatype call =
    ConstructCall cl_context cl_command_queue
  | DestructCall CLEvaluator
  | CompileCall CLEvaluator VertexBufferDescriptor VertexBufferDescriptor
  | BindCall cl_command_queue cl_mem
  | EvalStencilsCall CLEvaluator cl_mem VertexBufferDescriptor cl_mem VertexBufferDescriptor
      cl_mem cl_mem cl_mem cl_mem int int
  | EvalPatchesCall CLEvaluator cl_mem VertexBufferDescriptor cl_mem VertexBufferDescriptor
      cl_mem VertexBufferDescriptor cl_mem VertexBufferDescriptor int
      cl_mem cl_mem cl_mem cl_mem

definition recording :: "'w runtime \<Rightarrow> ('w \<times> call list) runtime" where
  "recording rt =
     \<lparr>construct = (\<lambda>ctx queue (w, calls).
        case construct rt ctx queue w of
          (k, w') \<Rightarrow> (k, (w', calls @ [ConstructCall ctx queue]))),
      destruct = (\<lambda>k (w, calls). (destruct rt k w, calls @ [DestructCall k])),
      Compile = (\<lambda>k srcDesc dstDesc (w, calls).
        case Compile rt k srcDesc dstDesc w of
          (r, w') \<Rightarrow> (r, (w', calls @ [CompileCall k srcDesc dstDesc]))),
      EvalStencils = (\<lambda>k src srcDesc dst dstDesc sizes offsets indices weights start end
          (w, calls).
        case EvalStencils rt k src srcDesc dst dstDesc sizes offsets indices weights
               start end w of
          (r, w') \<Rightarrow> (r, (w', calls @ [EvalStencilsCall k src srcDesc dst dstDesc sizes
                                      offsets indices weights start end]))),
      EvalPatches = (\<lambda>k src srcDesc dst dstDesc du duDesc dv dvDesc n pcb pab pib ppb
          (w, calls).
        case EvalPatches rt k src srcDesc dst dstDesc du duDesc dv dvDesc n pcb pab pib ppb w of
          (r, w') \<Rightarrow> (r, (w', calls @ [EvalPatchesCall k src srcDesc dst dstDesc du duDesc
                                      dv dvDesc n pcb pab pib ppb])))\<rparr>"

definition recordingBuffer :: "'w buffer \<Rightarrow> ('w \<times> call list) buffer" where
  "recordingBuffer b =
     (\<lambda>queue (w, calls). case BindCLBuffer b queue w of
        (h, w') \<Rightarrow> (h, (w', calls @ [BindCall queue h])))"

fun compileCalls :: "call list \<Rightarrow> (VertexBufferDescriptor \<times> VertexBufferDescriptor) list" where
  "compileCalls [] = []"
| "compileCalls (CompileCall k srcDesc dstDesc # cs) = (srcDesc, dstDesc) # compileCalls cs"
| "compileCalls (c # cs) = compileCalls cs"

text \<open>A run of \<open>Compile\<close> calls on one evaluator, with the result of each.\<close>

fun CompileAll ::
  "'w runtime \<Rightarrow> CLEvaluator \<Rightarrow> (VertexBufferDescriptor \<times> VertexBufferDescriptor) list
   \<Rightarrow> 'w \<Rightarrow> (bool list \<times> CLEvaluator) \<times> 'w" where
  "CompileAll rt k [] w = (([], k), w)"
| "CompileAll rt k ((srcDesc, dstDesc) # ps) w =
     (case Compile rt k srcDesc dstDesc w of ((ok, k'), w') \<Rightarrow>
        (case CompileAll rt k' ps w' of ((oks, k''), w'') \<Rightarrow> ((ok # oks, k''), w'')))"

text \<open>
  The on-demand path of the static \<open>EvalStencils\<close> as the specification words it: a
  temporary evaluator is constructed and compiled for the descriptors, one dispatch is
  made through it, it is destroyed, and the result of the dispatch is returned.
\<close>

definition EvalStencils_ondemand_spec ::
  "'w runtime \<Rightarrow> 'w buffer \<Rightarrow> VertexBufferDescriptor
   \<Rightarrow> 'w buffer \<Rightarrow> VertexBufferDescriptor \<Rightarrow> CLStencilTable
   \<Rightarrow> DeviceContext \<Rightarrow> 'w \<Rightarrow> bool \<times> 'w" where
  "EvalStencils_ondemand_spec rt srcBuffer srcDesc dstBuffer dstDesc stencilTable
       deviceContext w =
     (case construct rt (GetContext deviceContext) (GetCommandQueue deviceContext) w of
        (k, w1) \<Rightarrow>
          (case Compile rt k srcDesc dstDesc w1 of ((ok, k'), w2) \<Rightarrow>
             (case EvalStencils_member rt k' srcBuffer srcDesc dstBuffer dstDesc
                     stencilTable w2 of
                (r, w3) \<Rightarrow> (r, destruct rt k' w3))))"

section \<open>Concrete inputs\<close>

text \<open>
  The scenario of the specification: two stencils, \<open>sizes = [1, 2]\<close>,
  \<open>offsets = [0, 1]\<close>, \<open>indices = [0, 0, 1]\<close>, \<open>weights = [1.0, 0.5, 0.5]\<close>, the
  one-component source \<open>[10.0, 20.0]\<close>. The source is buffer 1, the destination
  buffer 2, the table's buffers are 3 to 6; buffers 7 and 8 take derivatives.
\<close>

definition scenario :: "real device" where
  "scenario =
     \<lparr>fbuf = (\<lambda>h. if h = 1 then [10.0, 20.0] else if h = 6 then [1.0, 0.5, 0.5]
                  else if h = 2 \<or> h = 7 \<or> h = 8 then [0, 0] else []),
      ibuf = (\<lambda>h. if h = 3 then [1, 2] else if h = 4 then [0, 1]
                  else if h = 5 then [0, 0, 1] else [])\<rparr>"

definition scenarioTable :: CLStencilTable where
  "scenarioTable =
     \<lparr>GetSizesBuffer = 3, GetOffsetsBuffer = 4, GetIndicesBuffer = 5,
      GetWeightsBuffer = 6, GetNumStencils = 2\<rparr>"

definition oneComponent :: VertexBufferDescriptor where
  "oneComponent = \<lparr>offset = 0, length_d = 1, stride = 1\<rparr>"

definition compiledEvaluator :: CLEvaluator where
  "compiledEvaluator =
     \<lparr>clContext = 1, clCommandQueue = 1, program = 1, stencilKernel = 2, patchKernel = 3\<rparr>"

text \<open>A platform on which every build succeeds, and one on which every build fails.\<close>

definition buildOk :: builder where
  "buildOk ctx srcDesc dstDesc = Some (1, 2, 3)"

definition buildFails :: builder where
  "buildFails ctx srcDesc dstDesc = None"

text \<open>A limit evaluation with position 1, and tangents 2 and 3, in every component.\<close>

definition limit123 :: "real patch_eval" where
  "limit123 w src srcDesc pcb pab pib ppb n = (\<lambda>c. 1, \<lambda>c. 2, \<lambda>c. 3)"

definition scenarioPatchTable :: PatchTable where
  "scenarioPatchTable =
     \<lparr>GetPatchArrayBuffer = 9, GetPatchIndexBuffer = 10, GetPatchParamBuffer = 11\<rparr>"

definition scenarioContext :: DeviceContext where
  "scenarioContext = \<lparr>GetContext = 1, GetCommandQueue = 1\<rparr>"

text \<open>
  The same table applied in place: buffer 2 holds two records of two components, the
  source value and the place of the result.
\<close>

definition inPlace :: "real device" where
  "inPlace =
     \<lparr>fbuf = (\<lambda>h. if h = 2 then [10, 0, 20, 0] else if h = 6 then [1.0, 0.5, 0.5]
                  else []),
      ibuf = (\<lambda>h. if h = 3 then [1, 2] else if h = 4 then [0, 1]
                  else if h = 5 then [0, 0, 1] else [])\<rparr>"

definition inPlaceSrc :: VertexBufferDescriptor where
  "inPlaceSrc = \<lparr>offset = 0, length_d = 1, stride = 2\<rparr>"

definition inPlaceDst :: VertexBufferDescriptor where
  "inPlaceDst = \<lparr>offset = 1, length_d = 1, stride = 2\<rparr>"

section \<open>Writing through a descriptor\<close>

text \<open>
  With at most \<open>stride\<close> components per vertex, two different components of the
  layout never share a place.
\<close>

lemma slot_inj:
  assumes "c < stride desc" "c' < stride desc" "slot desc i c = slot desc j c'"
  shows "i = j \<and> c = c'"
proof -
  from assms(3) have e: "i * stride desc + c = j * stride desc + c'"
    by (simp add: slot_def)
  have "(i * stride desc + c) div stride desc = i" using assms(1) by simp
  moreover have "(j * stride desc + c') div stride desc = j" using assms(2) by simp
  ultimately have "i = j" using e by simp
  with e show ?thesis by simp
qed

lemma foldl_upd_length:
  "length (foldl (\<lambda>d x. d[f x := g x]) buf xs) = length buf"
  by (induction xs arbitrary: buf) auto

lemma foldl_upd_other:
  "p \<notin> f ` set xs \<Longrightarrow> foldl (\<lambda>d x. d[f x := g x]) buf xs ! p = buf ! p"
  by (induction xs arbitrary: buf) auto

lemma foldl_upd_hit:
  assumes "inj_on f (set xs)" "x \<in> set xs" "f x < length buf"
  shows "foldl (\<lambda>d x. d[f x := g x]) buf xs ! f x = g x"
  using assms
proof (induction xs arbitrary: buf)
  case Nil
  then show ?case by simp
next
  case (Cons a xs)
  show ?case
  proof (cases "x \<in> set xs")
    case True
    have "inj_on f (set xs)" using Cons.prems(1) by (simp add: inj_on_def)
    then show ?thesis using Cons.IH [of "buf[f a := g a]"] True Cons.prems(3) by simp
  next
    case False
    then have xa: "x = a" using Cons.prems(2) by simp
    have "f x \<notin> f ` set xs"
    proof
      assume "f x \<in> f ` set xs"
      then obtain y where y: "y \<in> set xs" "f x = f y" by auto
      then have "x = y" using Cons.prems(1) xa by (auto simp: inj_on_def)
      with y False show False by simp
    qed
    then show ?thesis using xa Cons.prems(3) by (simp add: foldl_upd_other)
  qed
qed

text \<open>The writes of a run of vertices, as one run of single writes.\<close>

lemma writeVertices_flat:
  "writeVertices buf desc vs val =
     foldl (\<lambda>d x. d[slot desc (fst x) (snd x) := val (fst x) (snd x)]) buf
       (List.product vs [0..<length_d desc])"
  by (induction vs arbitrary: buf) (simp_all add: writeVertices_def writeVertex_def foldl_map)

lemma writeVertices_length:
  "length (writeVertices buf desc vs val) = length buf"
  by (simp add: writeVertices_flat foldl_upd_length)

lemma writeVertices_other:
  assumes "\<And>i c. i \<in> set vs \<Longrightarrow> c < length_d desc \<Longrightarrow> p \<noteq> slot desc i c"
  shows "writeVertices buf desc vs val ! p = buf ! p"
proof -
  have "p \<notin> (\<lambda>x. slot desc (fst x) (snd x)) ` set (List.product vs [0..<length_d desc])"
    using assms by fastforce
  then show ?thesis unfolding writeVertices_flat by (rule foldl_upd_other)
qed

lemma writeVertices_hit:
  assumes "length_d desc \<le> stride desc" "i \<in> set vs" "c < length_d desc"
    and "slot desc i c < length buf"
  shows "writeVertices buf desc vs val ! slot desc i c = val i c"
proof -
  let ?f = "\<lambda>x. slot desc (fst x) (snd x)"
  let ?xs = "List.product vs [0..<length_d desc]"
  have inj: "inj_on ?f (set ?xs)"
  proof (rule inj_onI)
    fix x y assume "x \<in> set ?xs" "y \<in> set ?xs" "?f x = ?f y"
    then have "snd x < stride desc" "snd y < stride desc"
        "slot desc (fst x) (snd x) = slot desc (fst y) (snd y)"
      using assms(1) by auto
    then have "fst x = fst y \<and> snd x = snd y" by (rule slot_inj)
    then show "x = y" by (simp add: prod_eq_iff)
  qed
  have mem: "(i, c) \<in> set ?xs" using assms(2,3) by simp
  have "foldl (\<lambda>d x. d[?f x := val (fst x) (snd x)]) buf ?xs ! ?f (i, c)
          = val (fst (i, c)) (snd (i, c))"
    using inj mem assms(4) by (intro foldl_upd_hit) simp_all
  then show ?thesis by (simp add: writeVertices_flat)
qed

text \<open>The order and the repetitions of the vertices do not matter.\<close>

lemma writeVertices_set_cong:
  assumes "length_d desc \<le> stride desc" "set vs = set vs'"
  shows "writeVertices buf desc vs val = writeVertices buf desc vs' val"
proof (rule nth_equalityI)
  show "length (writeVertices buf desc vs val) = length (writeVertices buf desc vs' val)"
    by (simp add: writeVertices_length)
next
  fix p assume "p < length (writeVertices buf desc vs val)"
  then have p: "p < length buf" by (simp add: writeVertices_length)
  show "writeVertices buf desc vs val ! p = writeVertices buf desc vs' val ! p"
  proof (cases "\<exists>i c. i \<in> set vs \<and> c < length_d desc \<and> p = slot desc i c")
    case True
    then obtain i c where ic: "i \<in> set vs" "c < length_d desc" "p = slot desc i c" by blast
    then show ?thesis using assms p by (simp add: writeVertices_hit)
  next
    case False
    then have "writeVertices buf desc vs val ! p = buf ! p"
      by (intro writeVertices_other) blast
    moreover have "writeVertices buf desc vs' val ! p = buf ! p"
      using False assms(2) by (intro writeVertices_other) blast
    ultimately show ?thesis by simp
  qed
qed

lemma writeVertices_val_cong:
  assumes "\<And>i c. i \<in> set vs \<Longrightarrow> c < length_d desc \<Longrightarrow> val i c = val' i c"
  shows "writeVertices buf desc vs val = writeVertices buf desc vs val'"
proof -
  have "\<And>d x. x \<in> set (List.product vs [0..<length_d desc]) \<Longrightarrow>
      d[slot desc (fst x) (snd x) := val (fst x) (snd x)]
        = d[slot desc (fst x) (snd x) := val' (fst x) (snd x)]"
    using assms by auto
  then show ?thesis unfolding writeVertices_flat by (intro foldl_cong) auto
qed

lemma writeVertices_append:
  "writeVertices buf desc (vs @ vs') val
     = writeVertices (writeVertices buf desc vs val) desc vs' val"
  by (simp add: writeVertices_def)

section \<open>The stencil kernel\<close>

lemma foldl_add_sum:
  "foldl (\<lambda>acc k. acc + f k) (z::'a::comm_monoid_add) [0..<n] = z + (\<Sum>k<n. f k)"
  by (induction n) (simp_all add: add.assoc)

text \<open>In exact arithmetic the accumulation is the sum of the specification.\<close>

lemma stencilComponent_sum:
  "stencilComponent src srcDesc sizes offsets indices weights i c =
     (\<Sum>k<nat (sizes ! i). weights ! (nat (offsets ! i) + k)
          * (src ! slot srcDesc (nat (indices ! (nat (offsets ! i) + k))) c :: 'a::semiring_0))"
  by (simp add: stencilComponent_def foldl_add_sum)

lemma stencilComponent_cong:
  assumes "\<And>k. k < nat (sizes ! i) \<Longrightarrow>
      s ! slot srcDesc (nat (indices ! (nat (offsets ! i) + k))) c =
      s' ! slot srcDesc (nat (indices ! (nat (offsets ! i) + k))) c"
  shows "stencilComponent s srcDesc sizes offsets indices weights i c =
         stencilComponent s' srcDesc sizes offsets indices weights i c"
  unfolding stencilComponent_def by (rule foldl_cong) (auto simp: assms)

text \<open>
  A dispatch that follows earlier dispatches of the same table into the same destination:
  when the places read are never places written, it adds its vertices to theirs.
\<close>

lemma dispatch_after:
  fixes w :: "('a::{zero,plus,times}) device"
  assumes k: "stencilKernel this \<noteq> 0"
    and wts: "weights \<noteq> dst"
    and indep: "src = dst \<longrightarrow>
      (\<forall>i<N. \<forall>k<nat (ibuf w sizes ! i). \<forall>c<length_d dstDesc. \<forall>j<N. \<forall>c'<length_d dstDesc.
         slot srcDesc (nat (ibuf w indices ! (nat (ibuf w offsets ! i) + k))) c
           \<noteq> slot dstDesc j c')"
    and vs: "set vs \<subseteq> {..<N}" and b: "nat b \<le> N"
  shows "snd (spec_EvalStencils this src srcDesc dst dstDesc sizes offsets indices weights a b
           (w\<lparr>fbuf := (fbuf w)(dst := writeVertices (fbuf w dst) dstDesc vs
                (stencilComponent (fbuf w src) srcDesc (ibuf w sizes) (ibuf w offsets)
                   (ibuf w indices) (fbuf w weights)))\<rparr>))
       = w\<lparr>fbuf := (fbuf w)(dst := writeVertices (fbuf w dst) dstDesc (vs @ [nat a..<nat b])
                (stencilComponent (fbuf w src) srcDesc (ibuf w sizes) (ibuf w offsets)
                   (ibuf w indices) (fbuf w weights)))\<rparr>"
proof -
  let ?V = "stencilComponent (fbuf w src) srcDesc (ibuf w sizes) (ibuf w offsets)
                   (ibuf w indices) (fbuf w weights)"
  let ?B = "writeVertices (fbuf w dst) dstDesc vs ?V"
  let ?m = "(fbuf w)(dst := ?B)"
  have agree: "stencilComponent (?m src) srcDesc (ibuf w sizes) (ibuf w offsets)
                   (ibuf w indices) (fbuf w weights) i c = ?V i c"
    if "i < N" "c < length_d dstDesc" for i c
  proof (rule stencilComponent_cong)
    fix k assume kk: "k < nat (ibuf w sizes ! i)"
    let ?p = "slot srcDesc (nat (ibuf w indices ! (nat (ibuf w offsets ! i) + k))) c"
    show "?m src ! ?p = fbuf w src ! ?p"
    proof (cases "src = dst")
      case False
      then show ?thesis by simp
    next
      case True
      have "?B ! ?p = fbuf w dst ! ?p"
      proof (rule writeVertices_other)
        fix j c' assume "j \<in> set vs" "c' < length_d dstDesc"
        then have "j < N" using vs by auto
        then show "?p \<noteq> slot dstDesc j c'"
          using indep True that kk \<open>c' < length_d dstDesc\<close> by blast
      qed
      then show ?thesis using True by simp
    qed
  qed
  have "writeVertices ?B dstDesc [nat a..<nat b]
          (stencilComponent (?m src) srcDesc (ibuf w sizes) (ibuf w offsets)
                   (ibuf w indices) (fbuf w weights))
      = writeVertices ?B dstDesc [nat a..<nat b] ?V"
  proof (rule writeVertices_val_cong)
    fix i c assume "i \<in> set [nat a..<nat b]" "c < length_d dstDesc"
    then show "stencilComponent (?m src) srcDesc (ibuf w sizes) (ibuf w offsets)
                   (ibuf w indices) (fbuf w weights) i c = ?V i c"
      using b by (intro agree) auto
  qed
  then show ?thesis using k wts
    by (simp add: spec_EvalStencils_def writeVertices_append)
qed

section \<open>Compilation\<close>

text \<open>A run of \<open>Compile\<close> calls none of which succeeds leaves the evaluator as it was.\<close>

lemma CompileAll_failed:
  assumes "CompileAll (spec_runtime build limit) k ps w = ((oks, k'), w')"
    and "True \<notin> set oks"
  shows "k' = k"
  using assms
proof (induction ps arbitrary: k w oks k' w')
  case Nil
  then show ?case by simp
next
  case (Cons p ps)
  obtain srcDesc dstDesc where p: "p = (srcDesc, dstDesc)" by (cases p)
  obtain ok k1 w1 where c: "spec_Compile build k srcDesc dstDesc w = ((ok, k1), w1)"
    by (metis surj_pair)
  obtain oks1 k2 w2
    where r: "CompileAll (spec_runtime build limit) k1 ps w1 = ((oks1, k2), w2)"
    by (metis surj_pair)
  from Cons.prems(1) p c r have e: "oks = ok # oks1" "k' = k2"
    by (simp_all add: spec_runtime_def)
  with Cons.prems(2) have "\<not> ok" "True \<notin> set oks1" by auto
  from c \<open>\<not> ok\<close> have "k1 = k"
    by (auto simp: spec_Compile_def split: option.splits prod.splits if_splits)
  moreover from Cons.IH [OF r \<open>True \<notin> set oks1\<close>] have "k2 = k1" .
  ultimately show ?case using e by simp
qed

lemma compileCalls_append:
  "compileCalls (xs @ ys) = compileCalls xs @ compileCalls ys"
  by (induction xs rule: compileCalls.induct) auto

section \<open>The patch kernel\<close>

text \<open>
  A place of the destination buffer that no derivative write reaches holds the same value
  whether the derivative outputs are given or left out.
\<close>

lemma spec_EvalPatches_position:
  fixes w :: "'a device"
  assumes "du = dst \<longrightarrow> (\<forall>n<nat numPatchCoords. \<forall>c<length_d duDesc. p \<noteq> slot duDesc n c)"
    and "dv = dst \<longrightarrow> (\<forall>n<nat numPatchCoords. \<forall>c<length_d dvDesc. p \<noteq> slot dvDesc n c)"
  shows "fbuf (snd (spec_EvalPatches limit this src srcDesc dst dstDesc du duDesc dv dvDesc
                 numPatchCoords pcb pab pib ppb w)) dst ! p
       = fbuf (snd (spec_EvalPatches limit this src srcDesc dst dstDesc
                 0 VertexBufferDescriptor0 0 VertexBufferDescriptor0
                 numPatchCoords pcb pab pib ppb w)) dst ! p"
proof -
  have a: "writeVertices B duDesc [0..<nat numPatchCoords] v ! p = B ! p"
    if "du = dst" for B :: "'a list" and v
    using assms(1) that by (intro writeVertices_other) auto
  have b: "writeVertices B dvDesc [0..<nat numPatchCoords] v ! p = B ! p"
    if "dv = dst" for B :: "'a list" and v
    using assms(2) that by (intro writeVertices_other) auto
  show ?thesis
    by (simp add: spec_EvalPatches_def Let_def a b)
qed

lemma spec_EvalPatches_success:
  "fst (spec_EvalPatches limit this src srcDesc dst dstDesc du duDesc dv dvDesc
          numPatchCoords pcb pab pib ppb w) \<longleftrightarrow> patchKernel this \<noteq> 0"
  by (simp add: spec_EvalPatches_def Let_def)

section \<open>Stencil evaluation\<close>

text \<open>
  C1. On a compiled evaluator the raw \<open>EvalStencils\<close> over \<open>[start, end)\<close> succeeds and
  leaves, for each output vertex \<open>i\<close> of the range and each of the \<open>dstDesc.length\<close>
  components \<open>c\<close>, at offset \<open>dstDesc.offset\<close> and stride \<open>dstDesc.stride\<close> of the
  destination, the sum over \<open>k < sizes[i]\<close> of \<open>weights[offsets[i] + k]\<close> times the source
  component read through \<open>srcDesc\<close> at vertex \<open>indices[offsets[i] + k]\<close>. The sum is the
  exact one (the components form a semiring; the rounding of \<open>float\<close> is not modelled),
  the descriptor has at most \<open>stride\<close> components and the place written lies in the
  destination buffer. For the table of the scenario and the source \<open>[10.0, 20.0]\<close> the
  destination becomes \<open>[10.0, 15.0]\<close>.
\<close>

theorem EvalStencils_weighted_sum:
  fixes w :: "('a::semiring_0) device"
  shows
    "(stencilKernel this \<noteq> 0 \<and> length_d dstDesc \<le> stride dstDesc
        \<and> start \<le> int i \<and> int i < end \<and> c < length_d dstDesc
        \<and> slot dstDesc i c < length (fbuf w dst) \<longrightarrow>
      fst (spec_EvalStencils this src srcDesc dst dstDesc sizes offsets indices weights
             start end w)
      \<and> fbuf (snd (spec_EvalStencils this src srcDesc dst dstDesc sizes offsets indices
                     weights start end w)) dst ! slot dstDesc i c
          = (\<Sum>k<nat (ibuf w sizes ! i).
               fbuf w weights ! (nat (ibuf w offsets ! i) + k)
               * fbuf w src
                   ! slot srcDesc (nat (ibuf w indices ! (nat (ibuf w offsets ! i) + k))) c))
   \<and> fbuf (snd (spec_EvalStencils compiledEvaluator 1 oneComponent 2 oneComponent 3 4 5 6
                  0 2 scenario)) 2 = [10.0, 15.0]"
proof (intro conjI impI)
  assume a: "stencilKernel this \<noteq> 0 \<and> length_d dstDesc \<le> stride dstDesc
        \<and> start \<le> int i \<and> int i < end \<and> c < length_d dstDesc
        \<and> slot dstDesc i c < length (fbuf w dst)"
  then show "fst (spec_EvalStencils this src srcDesc dst dstDesc sizes offsets indices
                    weights start end w)"
    by (simp add: spec_EvalStencils_def)
  from a have "i \<in> set [nat start..<nat end]" by auto
  with a show "fbuf (snd (spec_EvalStencils this src srcDesc dst dstDesc sizes offsets
                     indices weights start end w)) dst ! slot dstDesc i c
          = (\<Sum>k<nat (ibuf w sizes ! i).
               fbuf w weights ! (nat (ibuf w offsets ! i) + k)
               * fbuf w src
                   ! slot srcDesc (nat (ibuf w indices ! (nat (ibuf w offsets ! i) + k))) c)"
    by (simp add: spec_EvalStencils_def writeVertices_hit stencilComponent_sum)
next
  show "fbuf (snd (spec_EvalStencils compiledEvaluator 1 oneComponent 2 oneComponent 3 4 5 6
                  0 2 scenario)) 2 = [10.0, 15.0]"
    by (simp add: spec_EvalStencils_def scenario_def compiledEvaluator_def oneComponent_def
        writeVertices_def writeVertex_def stencilComponent_def slot_def eval_nat_numeral)
qed

theorem EvalStencils_weighted_sum_witness:
  "stencilKernel compiledEvaluator \<noteq> 0 \<and> length_d oneComponent \<le> stride oneComponent
   \<and> 0 \<le> int 1 \<and> int 1 < 2 \<and> 0 < length_d oneComponent
   \<and> slot oneComponent 1 0 < length (fbuf scenario 2)
   \<and> fst (spec_EvalStencils compiledEvaluator 1 oneComponent 2 oneComponent 3 4 5 6
            0 2 scenario)
   \<and> fbuf (snd (spec_EvalStencils compiledEvaluator 1 oneComponent 2 oneComponent 3 4 5 6
                  0 2 scenario)) 2 ! slot oneComponent 1 0 = 15"
  using EvalStencils_weighted_sum [where this = compiledEvaluator and dstDesc = oneComponent
      and srcDesc = oneComponent and start = 0 and i = 1 and ?end = 2 and c = 0
      and w = scenario and src = 1 and dst = 2 and sizes = 3 and offsets = 4
      and indices = 5 and weights = 6]
  by (simp add: scenario_def compiledEvaluator_def oneComponent_def slot_def
      eval_nat_numeral)

text \<open>
  C2. On an evaluator on which no \<open>Compile\<close> call has succeeded (a constructed evaluator
  after any run of \<open>Compile\<close> calls none of which returned true), the two raw dispatches
  return false and leave the device memory as it is; the member templates return false
  and leave the world as their binds left it, and so do the static templates given that
  evaluator as instance.
\<close>

theorem uncompiled_dispatch_returns_false:
  fixes w :: "('a::{zero,plus,times}) device"
  assumes "CompileAll (spec_runtime build limit) (fst (spec_construct ctx queue w0)) ps w0
             = ((oks, this), w1)"
    and "True \<notin> set oks"
  shows
    "spec_EvalStencils this src srcDesc dst dstDesc sizes offsets indices weights start end w
       = (False, w)
   \<and> spec_EvalPatches limit this src srcDesc dst dstDesc du duDesc dv dvDesc n pcb pab pib
         ppb w = (False, w)
   \<and> EvalStencils_member (spec_runtime build limit) this srcBuffer srcDesc dstBuffer dstDesc
         stencilTable w
       = (False, snd (BindCLBuffer dstBuffer (clCommandQueue this)
                   (snd (BindCLBuffer srcBuffer (clCommandQueue this) w))))
   \<and> EvalPatches_member (spec_runtime build limit) this srcBuffer srcDesc dstBuffer dstDesc
         n patchCoords patchTable w
       = (False, snd (BindCLBuffer patchCoords (clCommandQueue this)
                   (snd (BindCLBuffer dstBuffer (clCommandQueue this)
                      (snd (BindCLBuffer srcBuffer (clCommandQueue this) w))))))
   \<and> EvalPatches_member_deriv (spec_runtime build limit) this srcBuffer srcDesc dstBuffer
         dstDesc duBuffer duDesc dvBuffer dvDesc n patchCoords patchTable w
       = (False, snd (BindCLBuffer patchCoords (clCommandQueue this)
                   (snd (BindCLBuffer dvBuffer (clCommandQueue this)
                      (snd (BindCLBuffer duBuffer (clCommandQueue this)
                         (snd (BindCLBuffer dstBuffer (clCommandQueue this)
                            (snd (BindCLBuffer srcBuffer (clCommandQueue this) w))))))))))
   \<and> EvalStencils_static (spec_runtime build limit) srcBuffer srcDesc dstBuffer dstDesc
         stencilTable (Some this) deviceContext w
       = (False, snd (BindCLBuffer dstBuffer (clCommandQueue this)
                   (snd (BindCLBuffer srcBuffer (clCommandQueue this) w))))
   \<and> EvalPatches_static (spec_runtime build limit) srcBuffer srcDesc dstBuffer dstDesc
         n patchCoords patchTable (Some this) deviceContext w
       = (False, snd (BindCLBuffer patchCoords (clCommandQueue this)
                   (snd (BindCLBuffer dstBuffer (clCommandQueue this)
                      (snd (BindCLBuffer srcBuffer (clCommandQueue this) w))))))
   \<and> EvalPatches_static_deriv (spec_runtime build limit) srcBuffer srcDesc dstBuffer
         dstDesc duBuffer duDesc dvBuffer dvDesc n patchCoords patchTable (Some this)
         deviceContext w
       = (False, snd (BindCLBuffer patchCoords (clCommandQueue this)
                   (snd (BindCLBuffer dvBuffer (clCommandQueue this)
                      (snd (BindCLBuffer duBuffer (clCommandQueue this)
                         (snd (BindCLBuffer dstBuffer (clCommandQueue this)
                            (snd (BindCLBuffer srcBuffer (clCommandQueue this) w))))))))))"
proof -
  have "this = fst (spec_construct ctx queue w0)"
    using assms by (rule CompileAll_failed)
  then have k: "stencilKernel this = 0" "patchKernel this = 0"
    by (simp_all add: spec_construct_def)
  have s: "spec_EvalStencils this a b c' d e f g h i j x = (False, x)"
    for a b c' d e f g h i j and x :: "'a device"
    using k by (simp add: spec_EvalStencils_def)
  have p: "spec_EvalPatches limit this a b c' d e f g h i j l m r x = (False, x)"
    for a b c' d e f g h i j l m r and x :: "'a device"
    using k by (simp add: spec_EvalPatches_def)
  have ms: "EvalStencils_member (spec_runtime build limit) this srcBuffer srcDesc dstBuffer
         dstDesc stencilTable w
       = (False, snd (BindCLBuffer dstBuffer (clCommandQueue this)
                   (snd (BindCLBuffer srcBuffer (clCommandQueue this) w))))"
    by (simp add: EvalStencils_member_def spec_runtime_def s split: prod.splits)
  have mp: "EvalPatches_member (spec_runtime build limit) this srcBuffer srcDesc dstBuffer
         dstDesc n patchCoords patchTable w
       = (False, snd (BindCLBuffer patchCoords (clCommandQueue this)
                   (snd (BindCLBuffer dstBuffer (clCommandQueue this)
                      (snd (BindCLBuffer srcBuffer (clCommandQueue this) w))))))"
    by (simp add: EvalPatches_member_def spec_runtime_def p split: prod.splits)
  have md: "EvalPatches_member_deriv (spec_runtime build limit) this srcBuffer srcDesc
         dstBuffer dstDesc duBuffer duDesc dvBuffer dvDesc n patchCoords patchTable w
       = (False, snd (BindCLBuffer patchCoords (clCommandQueue this)
                   (snd (BindCLBuffer dvBuffer (clCommandQueue this)
                      (snd (BindCLBuffer duBuffer (clCommandQueue this)
                         (snd (BindCLBuffer dstBuffer (clCommandQueue this)
                            (snd (BindCLBuffer srcBuffer (clCommandQueue this) w))))))))))"
    by (simp add: EvalPatches_member_deriv_def spec_runtime_def p split: prod.splits)
  show ?thesis
    by (simp add: s p ms mp md EvalStencils_static_def EvalPatches_static_def
        EvalPatches_static_deriv_def)
qed

theorem uncompiled_dispatch_returns_false_witness:
  "CompileAll (spec_runtime buildFails limit123) (fst (spec_construct 1 1 scenario))
       [(oneComponent, oneComponent)] scenario
     = (([False], fst (spec_construct 1 1 scenario)), scenario)
   \<and> True \<notin> set [False]
   \<and> spec_EvalStencils (fst (spec_construct 1 1 scenario)) 1 oneComponent 2 oneComponent
         3 4 5 6 0 2 scenario = (False, scenario)
   \<and> EvalPatches_member_deriv (spec_runtime buildFails limit123)
         (fst (spec_construct 1 1 scenario)) (plainBuffer 1) oneComponent
         (plainBuffer 2) oneComponent (plainBuffer 7) oneComponent (plainBuffer 8)
         oneComponent 2 (plainBuffer 12) scenarioPatchTable scenario = (False, scenario)"
proof -
  have h: "CompileAll (spec_runtime buildFails limit123) (fst (spec_construct 1 1 scenario))
       [(oneComponent, oneComponent)] scenario
     = (([False], fst (spec_construct 1 1 scenario)), scenario)"
    by (simp add: spec_runtime_def spec_Compile_def buildFails_def)
  have n: "True \<notin> set [False]" by simp
  show ?thesis
    using h uncompiled_dispatch_returns_false [OF h n, of 1 oneComponent 2 oneComponent
        3 4 5 6 0 2 scenario 7 oneComponent 8 oneComponent 2 12 9 10 11
        "plainBuffer 1" "plainBuffer 2" scenarioTable "plainBuffer 12" scenarioPatchTable
        "plainBuffer 7" "plainBuffer 8" scenarioContext]
    by (simp add: plainBuffer_def BindCLBuffer_def)
qed

text \<open>
  C3. The static \<open>EvalStencils\<close> given an instance returns what the member
  \<open>EvalStencils\<close> of that instance returns on the same arguments. Given none, it calls
  \<open>Create\<close> for the pair \<open>srcDesc\<close>, \<open>dstDesc\<close>; when that yields an evaluator it makes
  one dispatch through it, destroys it and returns the result of the dispatch; when it
  yields \<open>NULL\<close> it returns false and makes no dispatch.
\<close>

theorem EvalStencils_static_cases:
  "(instance = Some inst \<longrightarrow>
      EvalStencils_static rt srcBuffer srcDesc dstBuffer dstDesc stencilTable instance
          deviceContext w
        = EvalStencils_member rt inst srcBuffer srcDesc dstBuffer dstDesc stencilTable w)
 \<and> (instance = None
      \<and> Create_generic rt srcDesc dstDesc deviceContext w = (Some inst, w1)
      \<and> EvalStencils_member rt inst srcBuffer srcDesc dstBuffer dstDesc stencilTable w1
          = (r, w2) \<longrightarrow>
      EvalStencils_static rt srcBuffer srcDesc dstBuffer dstDesc stencilTable instance
          deviceContext w
        = (r, destruct rt inst w2))
 \<and> (instance = None \<and> Create_generic rt srcDesc dstDesc deviceContext w = (None, w1) \<longrightarrow>
      EvalStencils_static rt srcBuffer srcDesc dstBuffer dstDesc stencilTable instance
          deviceContext w
        = (False, w1))"
  by (simp add: EvalStencils_static_def)

theorem EvalStencils_static_cases_witness:
  "EvalStencils_static (spec_runtime buildFails limit123) (plainBuffer 1) oneComponent
       (plainBuffer 2) oneComponent scenarioTable (Some compiledEvaluator) scenarioContext
       scenario
     = EvalStencils_member (spec_runtime buildFails limit123) compiledEvaluator
         (plainBuffer 1) oneComponent (plainBuffer 2) oneComponent scenarioTable scenario
   \<and> Create_generic (spec_runtime buildOk limit123) oneComponent oneComponent
         scenarioContext scenario = (Some compiledEvaluator, scenario)
   \<and> fst (EvalStencils_static (spec_runtime buildOk limit123) (plainBuffer 1) oneComponent
         (plainBuffer 2) oneComponent scenarioTable None scenarioContext scenario)
   \<and> fbuf (snd (EvalStencils_static (spec_runtime buildOk limit123) (plainBuffer 1)
         oneComponent (plainBuffer 2) oneComponent scenarioTable None scenarioContext
         scenario)) 2 = [10, 15]
   \<and> Create_generic (spec_runtime buildFails limit123) oneComponent oneComponent
         scenarioContext scenario = (None, scenario)
   \<and> EvalStencils_static (spec_runtime buildFails limit123) (plainBuffer 1) oneComponent
         (plainBuffer 2) oneComponent scenarioTable None scenarioContext scenario
       = (False, scenario)"
  using
    EvalStencils_static_cases [where rt = "spec_runtime buildFails limit123"
      and ?instance = "Some compiledEvaluator" and inst = compiledEvaluator
      and srcBuffer = "plainBuffer 1" and dstBuffer = "plainBuffer 2"
      and srcDesc = oneComponent and dstDesc = oneComponent
      and stencilTable = scenarioTable and deviceContext = scenarioContext
      and w = scenario]
    EvalStencils_static_cases [where rt = "spec_runtime buildOk limit123"
      and ?instance = None and inst = compiledEvaluator
      and srcBuffer = "plainBuffer 1" and dstBuffer = "plainBuffer 2"
      and srcDesc = oneComponent and dstDesc = oneComponent
      and stencilTable = scenarioTable and deviceContext = scenarioContext
      and w = scenario and ?w1.0 = scenario
      and r = "fst (EvalStencils_member (spec_runtime buildOk limit123) compiledEvaluator
         (plainBuffer 1) oneComponent (plainBuffer 2) oneComponent scenarioTable scenario)"
      and ?w2.0 = "snd (EvalStencils_member (spec_runtime buildOk limit123)
         compiledEvaluator (plainBuffer 1) oneComponent (plainBuffer 2) oneComponent
         scenarioTable scenario)"]
    EvalStencils_static_cases [where rt = "spec_runtime buildFails limit123"
      and ?instance = None
      and srcBuffer = "plainBuffer 1" and dstBuffer = "plainBuffer 2"
      and srcDesc = oneComponent and dstDesc = oneComponent
      and stencilTable = scenarioTable and deviceContext = scenarioContext
      and w = scenario and ?w1.0 = scenario]
  by (simp add: Create_generic_def Create_def EvalStencils_member_def spec_runtime_def
      spec_construct_def spec_Compile_def spec_destruct_def spec_EvalStencils_def
      buildOk_def buildFails_def plainBuffer_def BindCLBuffer_def scenarioContext_def
      scenarioTable_def compiledEvaluator_def oneComponent_def scenario_def
      writeVertices_def writeVertex_def stencilComponent_def slot_def eval_nat_numeral)

text \<open>
  Where \<open>Compile\<close> fails, the on-demand path as the specification words it (a
  temporary evaluator is compiled, one dispatch is made through it and its result
  returned) and the code differ: with every call recorded, the code makes no dispatch,
  the wording makes one.
\<close>

theorem EvalStencils_static_counterexample:
  "EvalStencils_static (recording (spec_runtime buildFails limit123))
      (recordingBuffer (plainBuffer 1)) oneComponent
      (recordingBuffer (plainBuffer 2)) oneComponent
      scenarioTable None scenarioContext (scenario, [])
   \<noteq> EvalStencils_ondemand_spec (recording (spec_runtime buildFails limit123))
      (recordingBuffer (plainBuffer 1)) oneComponent
      (recordingBuffer (plainBuffer 2)) oneComponent
      scenarioTable scenarioContext (scenario, [])"
  by (simp add: EvalStencils_static_def EvalStencils_ondemand_spec_def
      EvalStencils_member_def Create_generic_def Create_def recording_def
      recordingBuffer_def plainBuffer_def BindCLBuffer_def spec_runtime_def
      spec_construct_def spec_Compile_def spec_destruct_def spec_EvalStencils_def
      buildFails_def scenarioContext_def)

section \<open>Limit evaluation\<close>

text \<open>
  C4. The member \<open>EvalPatches\<close> without derivatives binds its three buffers and is the
  raw \<open>EvalPatches\<close> with null handles and default-constructed descriptors for both
  derivatives. Leaving the derivative outputs out is no error and a no-op: the raw
  dispatch has the same success result with and without them, without them it writes to
  no buffer but the destination, and every place of the destination that the derivative
  writes do not reach holds the same value with and without them.
\<close>

theorem EvalPatches_member_null_derivatives:
  fixes rt :: "'w runtime" and w :: 'w and d :: "('a::{zero,plus,times}) device"
  shows
    "(\<exists>src w1 dst w2 pc w3.
        BindCLBuffer srcBuffer (clCommandQueue this) w = (src, w1)
      \<and> BindCLBuffer dstBuffer (clCommandQueue this) w1 = (dst, w2)
      \<and> BindCLBuffer patchCoords (clCommandQueue this) w2 = (pc, w3)
      \<and> EvalPatches_member rt this srcBuffer srcDesc dstBuffer dstDesc numPatchCoords
            patchCoords patchTable w
          = EvalPatches rt this src srcDesc dst dstDesc
              0 VertexBufferDescriptor0 0 VertexBufferDescriptor0 numPatchCoords pc
              (GetPatchArrayBuffer patchTable) (GetPatchIndexBuffer patchTable)
              (GetPatchParamBuffer patchTable) w3)
   \<and> fst (spec_EvalPatches limit k s sDesc t tDesc 0 VertexBufferDescriptor0
              0 VertexBufferDescriptor0 n pcb pab pib ppb d)
       = fst (spec_EvalPatches limit k s sDesc t tDesc du duDesc dv dvDesc n pcb pab pib
                ppb d)
   \<and> (\<forall>h. h \<noteq> t \<longrightarrow>
         fbuf (snd (spec_EvalPatches limit k s sDesc t tDesc 0 VertexBufferDescriptor0
                      0 VertexBufferDescriptor0 n pcb pab pib ppb d)) h = fbuf d h)
   \<and> ibuf (snd (spec_EvalPatches limit k s sDesc t tDesc 0 VertexBufferDescriptor0
                   0 VertexBufferDescriptor0 n pcb pab pib ppb d)) = ibuf d
   \<and> ((du = t \<longrightarrow> (\<forall>i<nat n. \<forall>c<length_d duDesc. p \<noteq> slot duDesc i c))
        \<and> (dv = t \<longrightarrow> (\<forall>i<nat n. \<forall>c<length_d dvDesc. p \<noteq> slot dvDesc i c)) \<longrightarrow>
       fbuf (snd (spec_EvalPatches limit k s sDesc t tDesc 0 VertexBufferDescriptor0
                    0 VertexBufferDescriptor0 n pcb pab pib ppb d)) t ! p
         = fbuf (snd (spec_EvalPatches limit k s sDesc t tDesc du duDesc dv dvDesc n pcb
                        pab pib ppb d)) t ! p)"
proof (intro conjI allI impI)
  show "\<exists>src w1 dst w2 pc w3.
        BindCLBuffer srcBuffer (clCommandQueue this) w = (src, w1)
      \<and> BindCLBuffer dstBuffer (clCommandQueue this) w1 = (dst, w2)
      \<and> BindCLBuffer patchCoords (clCommandQueue this) w2 = (pc, w3)
      \<and> EvalPatches_member rt this srcBuffer srcDesc dstBuffer dstDesc numPatchCoords
            patchCoords patchTable w
          = EvalPatches rt this src srcDesc dst dstDesc
              0 VertexBufferDescriptor0 0 VertexBufferDescriptor0 numPatchCoords pc
              (GetPatchArrayBuffer patchTable) (GetPatchIndexBuffer patchTable)
              (GetPatchParamBuffer patchTable) w3"
    by (simp add: EvalPatches_member_def split: prod.splits)
next
  show "fst (spec_EvalPatches limit k s sDesc t tDesc 0 VertexBufferDescriptor0
              0 VertexBufferDescriptor0 n pcb pab pib ppb d)
       = fst (spec_EvalPatches limit k s sDesc t tDesc du duDesc dv dvDesc n pcb pab pib
                ppb d)"
    by (simp add: spec_EvalPatches_success)
next
  fix h assume "h \<noteq> t"
  then show "fbuf (snd (spec_EvalPatches limit k s sDesc t tDesc 0 VertexBufferDescriptor0
                      0 VertexBufferDescriptor0 n pcb pab pib ppb d)) h = fbuf d h"
    by (simp add: spec_EvalPatches_def Let_def)
next
  show "ibuf (snd (spec_EvalPatches limit k s sDesc t tDesc 0 VertexBufferDescriptor0
                   0 VertexBufferDescriptor0 n pcb pab pib ppb d)) = ibuf d"
    by (simp add: spec_EvalPatches_def Let_def)
next
  assume "(du = t \<longrightarrow> (\<forall>i<nat n. \<forall>c<length_d duDesc. p \<noteq> slot duDesc i c))
        \<and> (dv = t \<longrightarrow> (\<forall>i<nat n. \<forall>c<length_d dvDesc. p \<noteq> slot dvDesc i c))"
  then show "fbuf (snd (spec_EvalPatches limit k s sDesc t tDesc 0 VertexBufferDescriptor0
                    0 VertexBufferDescriptor0 n pcb pab pib ppb d)) t ! p
         = fbuf (snd (spec_EvalPatches limit k s sDesc t tDesc du duDesc dv dvDesc n pcb
                        pab pib ppb d)) t ! p"
    by (simp add: spec_EvalPatches_position)
qed

theorem EvalPatches_member_null_derivatives_witness:
  "7 \<noteq> (2::nat) \<and> 8 \<noteq> (2::nat)
   \<and> fbuf (snd (spec_EvalPatches limit123 compiledEvaluator 1 oneComponent 2 oneComponent
                  0 VertexBufferDescriptor0 0 VertexBufferDescriptor0 2 12 9 10 11
                  scenario)) 7 = [0, 0]
   \<and> fbuf (snd (spec_EvalPatches limit123 compiledEvaluator 1 oneComponent 2 oneComponent
                  7 oneComponent 8 oneComponent 2 12 9 10 11 scenario)) 2 ! 1
       = fbuf (snd (spec_EvalPatches limit123 compiledEvaluator 1 oneComponent 2
                  oneComponent 0 VertexBufferDescriptor0 0 VertexBufferDescriptor0
                  2 12 9 10 11 scenario)) 2 ! 1"
  using EvalPatches_member_null_derivatives [where limit = limit123
      and k = compiledEvaluator and s = 1 and sDesc = oneComponent and t = 2
      and tDesc = oneComponent and du = 7 and duDesc = oneComponent and dv = 8
      and dvDesc = oneComponent and n = 2 and pcb = 12 and pab = 9 and pib = 10
      and ppb = 11 and d = scenario and p = 1
      and rt = "spec_runtime buildOk limit123" and this = compiledEvaluator
      and srcBuffer = "plainBuffer 1" and dstBuffer = "plainBuffer 2"
      and patchCoords = "plainBuffer 12" and srcDesc = oneComponent
      and dstDesc = oneComponent and numPatchCoords = 2
      and patchTable = scenarioPatchTable and w = scenario]
  by (simp add: spec_EvalPatches_def Let_def compiledEvaluator_def scenario_def)

text \<open>
  C5. For plain device buffers and the same source, descriptors, patch coordinates and
  patch table, the member \<open>EvalPatches\<close> with derivatives and the one without have the
  same success result and leave the same position values in the destination buffer:
  component \<open>c\<close> of the position of patch coordinate \<open>i\<close> is the same, provided that
  place is not also a place of a derivative output laid out in the destination buffer
  itself.
\<close>

theorem EvalPatches_derivatives_keep_position:
  fixes w :: "('a::{zero,plus,times}) device"
  assumes "i < nat numPatchCoords" "c < length_d dstDesc"
    and "du = dst \<longrightarrow>
      (\<forall>j<nat numPatchCoords. \<forall>e<length_d duDesc. slot dstDesc i c \<noteq> slot duDesc j e)"
    and "dv = dst \<longrightarrow>
      (\<forall>j<nat numPatchCoords. \<forall>e<length_d dvDesc. slot dstDesc i c \<noteq> slot dvDesc j e)"
  shows
    "fst (EvalPatches_member_deriv (spec_runtime build limit) this (plainBuffer src)
            srcDesc (plainBuffer dst) dstDesc (plainBuffer du) duDesc (plainBuffer dv)
            dvDesc numPatchCoords (plainBuffer pcb) patchTable w)
       = fst (EvalPatches_member (spec_runtime build limit) this (plainBuffer src) srcDesc
            (plainBuffer dst) dstDesc numPatchCoords (plainBuffer pcb) patchTable w)
   \<and> fbuf (snd (EvalPatches_member_deriv (spec_runtime build limit) this
            (plainBuffer src) srcDesc (plainBuffer dst) dstDesc (plainBuffer du) duDesc
            (plainBuffer dv) dvDesc numPatchCoords (plainBuffer pcb) patchTable w)) dst
         ! slot dstDesc i c
       = fbuf (snd (EvalPatches_member (spec_runtime build limit) this (plainBuffer src)
            srcDesc (plainBuffer dst) dstDesc numPatchCoords (plainBuffer pcb)
            patchTable w)) dst ! slot dstDesc i c"
  using assms(3,4)
  by (simp add: EvalPatches_member_deriv_def EvalPatches_member_def spec_runtime_def
      plainBuffer_def BindCLBuffer_def spec_EvalPatches_success
      spec_EvalPatches_position)

theorem EvalPatches_derivatives_keep_position_witness:
  "(1::nat) < nat 2 \<and> 0 < length_d oneComponent \<and> 7 \<noteq> (2::nat) \<and> 8 \<noteq> (2::nat)
   \<and> fbuf (snd (EvalPatches_member_deriv (spec_runtime buildOk limit123)
            compiledEvaluator (plainBuffer 1) oneComponent (plainBuffer 2) oneComponent
            (plainBuffer 7) oneComponent (plainBuffer 8) oneComponent 2 (plainBuffer 12)
            scenarioPatchTable scenario)) 2 ! slot oneComponent 1 0
       = fbuf (snd (EvalPatches_member (spec_runtime buildOk limit123) compiledEvaluator
            (plainBuffer 1) oneComponent (plainBuffer 2) oneComponent 2 (plainBuffer 12)
            scenarioPatchTable scenario)) 2 ! slot oneComponent 1 0
   \<and> fbuf (snd (EvalPatches_member (spec_runtime buildOk limit123) compiledEvaluator
            (plainBuffer 1) oneComponent (plainBuffer 2) oneComponent 2 (plainBuffer 12)
            scenarioPatchTable scenario)) 2 ! slot oneComponent 1 0 = 1"
  using EvalPatches_derivatives_keep_position [where build = buildOk and limit = limit123
      and this = compiledEvaluator and src = 1 and srcDesc = oneComponent and dst = 2
      and dstDesc = oneComponent and du = 7 and duDesc = oneComponent and dv = 8
      and dvDesc = oneComponent and numPatchCoords = 2 and pcb = 12
      and patchTable = scenarioPatchTable and w = scenario and i = 1 and c = 0]
  by (simp add: EvalPatches_member_def spec_runtime_def plainBuffer_def BindCLBuffer_def
      spec_EvalPatches_def compiledEvaluator_def oneComponent_def scenario_def
      limit123_def writeVertices_def writeVertex_def slot_def eval_nat_numeral)

section \<open>The convenience overload and the split of a range\<close>

text \<open>
  C6. The member template \<open>EvalStencils\<close> binds the source and the destination buffer
  object with \<open>BindCLBuffer\<close> for the evaluator's command queue, takes the four buffer
  handles and the count of the table, and is the raw \<open>EvalStencils\<close> on them with
  \<open>start = 0\<close> and \<open>end = GetNumStencils()\<close>, whose result it returns.
\<close>

theorem EvalStencils_member_forwards:
  "\<exists>src w1 dst w2.
     BindCLBuffer srcBuffer (clCommandQueue this) w = (src, w1)
   \<and> BindCLBuffer dstBuffer (clCommandQueue this) w1 = (dst, w2)
   \<and> EvalStencils_member rt this srcBuffer srcDesc dstBuffer dstDesc stencilTable w =
       EvalStencils rt this src srcDesc dst dstDesc
         (GetSizesBuffer stencilTable) (GetOffsetsBuffer stencilTable)
         (GetIndicesBuffer stencilTable) (GetWeightsBuffer stencilTable)
         0 (GetNumStencils stencilTable) w2"
  by (simp add: EvalStencils_member_def split: prod.splits)

text \<open>
  C7. For a range \<open>[start, end)\<close> within \<open>[0, n)\<close>, the dispatch over \<open>[start, end)\<close>
  followed by the dispatches over \<open>[0, start)\<close> and \<open>[end, n)\<close> into the same destination
  all succeed and leave the device memory that the single dispatch over \<open>[0, n)\<close>
  leaves. The output vertices are independent: the descriptor has at most \<open>stride\<close>
  components, the weights are not kept in the destination buffer, and where the source
  buffer is the destination buffer no place read is a place written.
\<close>

theorem EvalStencils_range_split:
  fixes w :: "('a::{zero,plus,times}) device"
  assumes k: "stencilKernel this \<noteq> 0"
    and range: "0 \<le> start" "start \<le> end" "end \<le> n"
    and layout: "length_d dstDesc \<le> stride dstDesc"
    and wts: "weights \<noteq> dst"
    and indep: "src = dst \<longrightarrow>
      (\<forall>i<nat n. \<forall>k<nat (ibuf w sizes ! i). \<forall>c<length_d dstDesc.
         \<forall>j<nat n. \<forall>c'<length_d dstDesc.
           slot srcDesc (nat (ibuf w indices ! (nat (ibuf w offsets ! i) + k))) c
             \<noteq> slot dstDesc j c')"
  shows
    "fst (spec_EvalStencils this src srcDesc dst dstDesc sizes offsets indices weights
            start end w)
   \<and> fst (spec_EvalStencils this src srcDesc dst dstDesc sizes offsets indices weights
            0 start
            (snd (spec_EvalStencils this src srcDesc dst dstDesc sizes offsets indices
                    weights start end w)))
   \<and> fst (spec_EvalStencils this src srcDesc dst dstDesc sizes offsets indices weights
            end n
            (snd (spec_EvalStencils this src srcDesc dst dstDesc sizes offsets indices
                    weights 0 start
               (snd (spec_EvalStencils this src srcDesc dst dstDesc sizes offsets indices
                       weights start end w)))))
   \<and> snd (spec_EvalStencils this src srcDesc dst dstDesc sizes offsets indices weights
            end n
            (snd (spec_EvalStencils this src srcDesc dst dstDesc sizes offsets indices
                    weights 0 start
               (snd (spec_EvalStencils this src srcDesc dst dstDesc sizes offsets indices
                       weights start end w)))))
       = snd (spec_EvalStencils this src srcDesc dst dstDesc sizes offsets indices weights
                0 n w)"
proof -
  let ?V = "stencilComponent (fbuf w src) srcDesc (ibuf w sizes) (ibuf w offsets)
                   (ibuf w indices) (fbuf w weights)"
  let ?E = "spec_EvalStencils this src srcDesc dst dstDesc sizes offsets indices weights"
  let ?W = "\<lambda>vs. w\<lparr>fbuf := (fbuf w)(dst := writeVertices (fbuf w dst) dstDesc vs ?V)\<rparr>"
  have ok: "fst (?E a b x)" for a b x
    using k by (simp add: spec_EvalStencils_def)
  have le: "nat start \<le> nat end" "nat end \<le> nat n" using range by auto
  have s1: "snd (?E start end w) = ?W [nat start..<nat end]"
    using k by (simp add: spec_EvalStencils_def)
  have s2: "snd (?E 0 start (?W [nat start..<nat end]))
      = ?W ([nat start..<nat end] @ [nat 0..<nat start])"
    using k wts indep le by (intro dispatch_after [where N = "nat n"]) auto
  have s3: "snd (?E end n (?W ([nat start..<nat end] @ [nat 0..<nat start])))
      = ?W (([nat start..<nat end] @ [nat 0..<nat start]) @ [nat end..<nat n])"
    using k wts indep le by (intro dispatch_after [where N = "nat n"]) auto
  have s0: "snd (?E 0 n w) = ?W [nat 0..<nat n]"
    using k by (simp add: spec_EvalStencils_def)
  have "set (([nat start..<nat end] @ [nat 0..<nat start]) @ [nat end..<nat n])
      = set [nat 0..<nat n]"
    using le by auto
  then have "writeVertices (fbuf w dst) dstDesc
        (([nat start..<nat end] @ [nat 0..<nat start]) @ [nat end..<nat n]) ?V
      = writeVertices (fbuf w dst) dstDesc [nat 0..<nat n] ?V"
    by (rule writeVertices_set_cong [OF layout])
  then have "snd (?E end n (snd (?E 0 start (snd (?E start end w))))) = snd (?E 0 n w)"
    by (simp only: s1 s2 s3 s0)
  then show ?thesis using ok by blast
qed

text \<open>
  An instance in place: source and destination are the one buffer 2, laid out with two
  components per record, the source in the first and the destination in the second.
\<close>

theorem EvalStencils_range_split_witness:
  "stencilKernel compiledEvaluator \<noteq> 0 \<and> (0::int) \<le> 1 \<and> (1::int) \<le> 2 \<and> (2::int) \<le> 2
   \<and> length_d inPlaceDst \<le> stride inPlaceDst \<and> (6::nat) \<noteq> 2
   \<and> snd (spec_EvalStencils compiledEvaluator 2 inPlaceSrc 2 inPlaceDst 3 4 5 6 2 2
        (snd (spec_EvalStencils compiledEvaluator 2 inPlaceSrc 2 inPlaceDst 3 4 5 6 0 1
           (snd (spec_EvalStencils compiledEvaluator 2 inPlaceSrc 2 inPlaceDst 3 4 5 6 1 2
                   inPlace)))))
       = snd (spec_EvalStencils compiledEvaluator 2 inPlaceSrc 2 inPlaceDst 3 4 5 6 0 2
                inPlace)
   \<and> fbuf (snd (spec_EvalStencils compiledEvaluator 2 inPlaceSrc 2 inPlaceDst 3 4 5 6 0 2
                inPlace)) 2 = [10, 10, 20, 15]"
proof -
  have indep: "(2::nat) = 2 \<longrightarrow>
      (\<forall>i<nat 2. \<forall>k<nat (ibuf inPlace 3 ! i). \<forall>c<length_d inPlaceDst.
         \<forall>j<nat 2. \<forall>c'<length_d inPlaceDst.
           slot inPlaceSrc (nat (ibuf inPlace 5 ! (nat (ibuf inPlace 4 ! i) + k))) c
             \<noteq> slot inPlaceDst j c')"
  proof -
    have "a * 2 \<noteq> Suc (b * 2)" for a b :: nat by presburger
    then show ?thesis by (simp add: inPlaceSrc_def inPlaceDst_def slot_def)
  qed
  have k: "stencilKernel compiledEvaluator \<noteq> 0" by (simp add: compiledEvaluator_def)
  have l: "length_d inPlaceDst \<le> stride inPlaceDst" by (simp add: inPlaceDst_def)
  have v: "fbuf (snd (spec_EvalStencils compiledEvaluator 2 inPlaceSrc 2 inPlaceDst
                3 4 5 6 0 2 inPlace)) 2 = [10, 10, 20, 15]"
    by (simp add: spec_EvalStencils_def inPlace_def compiledEvaluator_def inPlaceSrc_def
        inPlaceDst_def writeVertices_def writeVertex_def stencilComponent_def slot_def
        eval_nat_numeral)
  show ?thesis
    using EvalStencils_range_split [where this = compiledEvaluator and start = 1
        and ?end = 2 and n = 2 and dstDesc = inPlaceDst and srcDesc = inPlaceSrc
        and weights = 6 and dst = 2 and src = 2 and w = inPlace and sizes = 3
        and offsets = 4 and indices = 5, OF k _ _ _ l _ indep] k l v
    by simp
qed

section \<open>Compile and Create\<close>

text \<open>
  C8. When \<open>Compile\<close> returns false, the evaluator is left as it was: the program and
  the two kernel entry points are the previous ones, the device memory is untouched, and
  both raw dispatches behave through it as they did before; a build that the platform
  refuses makes \<open>Compile\<close> return false. \<open>Compile\<close> always returns.
\<close>

theorem Compile_failure_keeps_kernels:
  fixes w :: "('a::{zero,plus,times}) device"
  shows
    "(spec_Compile build this srcDesc dstDesc w = ((False, this'), w') \<longrightarrow>
        program this' = program this \<and> stencilKernel this' = stencilKernel this
      \<and> patchKernel this' = patchKernel this \<and> w' = w
      \<and> spec_EvalStencils this' src sDesc dst dDesc sizes offsets indices weights start
            end x
          = spec_EvalStencils this src sDesc dst dDesc sizes offsets indices weights start
              end x
      \<and> spec_EvalPatches limit this' src sDesc dst dDesc du duDesc dv dvDesc n pcb pab
            pib ppb x
          = spec_EvalPatches limit this src sDesc dst dDesc du duDesc dv dvDesc n pcb pab
              pib ppb x)
   \<and> (build (clContext this) srcDesc dstDesc = None \<longrightarrow>
        fst (fst (spec_Compile build this srcDesc dstDesc w)) = False)"
proof (intro conjI impI)
  assume "spec_Compile build this srcDesc dstDesc w = ((False, this'), w')"
  then have e: "this' = this" "w' = w"
    by (auto simp: spec_Compile_def split: option.splits prod.splits if_splits)
  show "program this' = program this" "stencilKernel this' = stencilKernel this"
    "patchKernel this' = patchKernel this" "w' = w"
    "spec_EvalStencils this' src sDesc dst dDesc sizes offsets indices weights start end x
       = spec_EvalStencils this src sDesc dst dDesc sizes offsets indices weights start
           end x"
    "spec_EvalPatches limit this' src sDesc dst dDesc du duDesc dv dvDesc n pcb pab pib
         ppb x
       = spec_EvalPatches limit this src sDesc dst dDesc du duDesc dv dvDesc n pcb pab pib
           ppb x"
    by (simp_all add: e)
next
  assume "build (clContext this) srcDesc dstDesc = None"
  then show "fst (fst (spec_Compile build this srcDesc dstDesc w)) = False"
    by (simp add: spec_Compile_def)
qed

theorem Compile_failure_keeps_kernels_witness:
  "spec_Compile buildFails compiledEvaluator oneComponent oneComponent scenario
     = ((False, compiledEvaluator), scenario)
   \<and> buildFails (clContext compiledEvaluator) oneComponent oneComponent = None
   \<and> stencilKernel compiledEvaluator = 2 \<and> patchKernel compiledEvaluator = 3
   \<and> fst (spec_EvalStencils compiledEvaluator 1 oneComponent 2 oneComponent 3 4 5 6 0 2
            scenario)"
  using Compile_failure_keeps_kernels [where build = buildFails
      and this = compiledEvaluator and this' = compiledEvaluator
      and srcDesc = oneComponent and dstDesc = oneComponent and w = scenario
      and w' = scenario and src = 1 and sDesc = oneComponent and dst = 2
      and dDesc = oneComponent and sizes = 3 and offsets = 4 and indices = 5
      and weights = 6 and start = 0 and ?end = 2 and x = scenario and limit = limit123
      and du = 7 and duDesc = oneComponent and dv = 8 and dvDesc = oneComponent
      and n = 2 and pcb = 12 and pab = 9 and pib = 10 and ppb = 11]
  by (simp add: spec_Compile_def buildFails_def compiledEvaluator_def
      spec_EvalStencils_def)

text \<open>
  C9. In both static \<open>EvalPatches\<close> templates given no instance, the one \<open>Compile\<close> call
  made is for the pair \<open>srcDesc\<close>, \<open>dstDesc\<close>, whatever the implementation of the members
  and whatever \<open>duDesc\<close> and \<open>dvDesc\<close> are: with every call recorded, the \<open>Compile\<close>
  calls added to the record are that single one.
\<close>

theorem EvalPatches_static_compiles_src_dst:
  "compileCalls (snd (snd (EvalPatches_static_deriv (recording rt)
       (recordingBuffer srcBuffer) srcDesc (recordingBuffer dstBuffer) dstDesc
       (recordingBuffer duBuffer) duDesc (recordingBuffer dvBuffer) dvDesc
       numPatchCoords (recordingBuffer patchCoords) patchTable None deviceContext
       (w, calls))))
     = compileCalls calls @ [(srcDesc, dstDesc)]
   \<and> compileCalls (snd (snd (EvalPatches_static (recording rt)
       (recordingBuffer srcBuffer) srcDesc (recordingBuffer dstBuffer) dstDesc
       numPatchCoords (recordingBuffer patchCoords) patchTable None deviceContext
       (w, calls))))
     = compileCalls calls @ [(srcDesc, dstDesc)]"
proof
  show "compileCalls (snd (snd (EvalPatches_static_deriv (recording rt)
       (recordingBuffer srcBuffer) srcDesc (recordingBuffer dstBuffer) dstDesc
       (recordingBuffer duBuffer) duDesc (recordingBuffer dvBuffer) dvDesc
       numPatchCoords (recordingBuffer patchCoords) patchTable None deviceContext
       (w, calls))))
     = compileCalls calls @ [(srcDesc, dstDesc)]"
    by (auto simp add: EvalPatches_static_deriv_def EvalPatches_member_deriv_def
        Create_generic_def Create_def recording_def recordingBuffer_def BindCLBuffer_def
        compileCalls_append split: prod.splits option.splits)
next
  show "compileCalls (snd (snd (EvalPatches_static (recording rt)
       (recordingBuffer srcBuffer) srcDesc (recordingBuffer dstBuffer) dstDesc
       numPatchCoords (recordingBuffer patchCoords) patchTable None deviceContext
       (w, calls))))
     = compileCalls calls @ [(srcDesc, dstDesc)]"
    by (auto simp add: EvalPatches_static_def EvalPatches_member_def
        Create_generic_def Create_def recording_def recordingBuffer_def BindCLBuffer_def
        compileCalls_append split: prod.splits option.splits)
qed

text \<open>
  C10. \<open>Create\<close> constructs an evaluator and calls \<open>Compile(srcDesc, dstDesc)\<close> on it. It
  returns an evaluator exactly when that call returns true, and then the evaluator that
  \<open>Compile\<close> left; otherwise it destroys the evaluator and returns \<open>NULL\<close>.
\<close>

theorem Create_iff_Compile:
  assumes "construct rt ctx queue w = (k, w1)"
    and "Compile rt k srcDesc dstDesc w1 = ((ok, k'), w2)"
  shows "(fst (Create rt srcDesc dstDesc ctx queue w) \<noteq> None \<longleftrightarrow> ok)
       \<and> (ok \<longrightarrow> Create rt srcDesc dstDesc ctx queue w = (Some k', w2))
       \<and> (\<not> ok \<longrightarrow> Create rt srcDesc dstDesc ctx queue w = (None, destruct rt k' w2))"
  using assms by (simp add: Create_def)

theorem Create_iff_Compile_witness:
  "construct (spec_runtime buildOk limit123) 1 1 scenario
     = (fst (spec_construct 1 1 scenario), scenario)
   \<and> Compile (spec_runtime buildOk limit123) (fst (spec_construct 1 1 scenario))
         oneComponent oneComponent scenario = ((True, compiledEvaluator), scenario)
   \<and> Create (spec_runtime buildOk limit123) oneComponent oneComponent 1 1 scenario
       = (Some compiledEvaluator, scenario)
   \<and> Compile (spec_runtime buildFails limit123) (fst (spec_construct 1 1 scenario))
         oneComponent oneComponent scenario
       = ((False, fst (spec_construct 1 1 scenario)), scenario)
   \<and> Create (spec_runtime buildFails limit123) oneComponent oneComponent 1 1 scenario
       = (None, scenario)"
proof -
  have c: "construct (spec_runtime b limit123) 1 1 scenario
      = (fst (spec_construct 1 1 scenario), scenario)" for b
    by (simp add: spec_runtime_def spec_construct_def)
  have y: "Compile (spec_runtime buildOk limit123) (fst (spec_construct 1 1 scenario))
         oneComponent oneComponent scenario = ((True, compiledEvaluator), scenario)"
    by (simp add: spec_runtime_def spec_construct_def spec_Compile_def buildOk_def
        compiledEvaluator_def)
  have n: "Compile (spec_runtime buildFails limit123) (fst (spec_construct 1 1 scenario))
         oneComponent oneComponent scenario
       = ((False, fst (spec_construct 1 1 scenario)), scenario)"
    by (simp add: spec_runtime_def spec_Compile_def buildFails_def)
  show ?thesis
    using c y n Create_iff_Compile [OF c y] Create_iff_Compile [OF c n]
    by (simp add: spec_runtime_def spec_destruct_def)
qed

end
